theory Spec2Isabelle
  imports Complex_Main
begin

section \<open>Fixed-step gradient descent of GradientShow.py\<close>

text \<open>
  The development embeds \<^verbatim>\<open>gradient_descent_pytorch\<close> (GradientShow.py, lines 57-106).

  Scalars. The source computes on float32 tensor elements and Python floats. Rounding is
  not modelled: the algorithm is written over an arbitrary carrier \<open>'a\<close> with its own
  \<open>-\<close>, \<open>*\<close> and \<open><\<close>, and conversions between tensor elements and Python floats
  (\<^verbatim>\<open>torch.tensor\<close>, \<^verbatim>\<open>.item()\<close>) are taken as exact. Structural facts therefore hold for
  every carrier; facts that need arithmetic are proved at \<open>real\<close>.

  The library. PyTorch is not part of the repository, so what the function uses of it
  is a parameter: \<open>torch_norm\<close> for \<^verbatim>\<open>torch.norm\<close>, and \<open>backward\<close> for the gradient that
  \<^verbatim>\<open>y.backward()\<close> leaves in \<^verbatim>\<open>x.grad\<close> (the gradient is zeroed at the start of every
  iteration, so nothing accumulates).

  Errors. The source has no \<^verbatim>\<open>raise\<close> and no \<^verbatim>\<open>try\<close>: an exception can only come out of
  a call of the objective or of the gradient computation, and it propagates. Both
  callables return \<open>error + _\<close>, and every call site is a branch of the model.
\<close>

datatype error = InvalidConfig | NumericalError

type_synonym 'a point = "'a \<times> 'a"

text \<open>One row \<^verbatim>\<open>[x1, x2, f(x1, x2)]\<close> of \<^verbatim>\<open>path\<close>.\<close>

type_synonym 'a sample = "'a \<times> 'a \<times> 'a"

definition sample_point :: "'a sample \<Rightarrow> 'a point" where
  "sample_point s = (fst s, fst (snd s))"

definition sample_value :: "'a sample \<Rightarrow> 'a" where
  "sample_value s = snd (snd s)"

text \<open>
  The lines the function prints: line 74 once, line 98 once per completed iteration,
  line 103 when the tolerance check stops the loop.
\<close>

datatype 'a event =
    Initial 'a 'a 'a
  | Iteration int 'a 'a 'a
  | Stopped 'a 'a

fun is_Iteration :: "'a event \<Rightarrow> bool" where
  "is_Iteration (Iteration i a b c) = True"
| "is_Iteration _ = False"

text \<open>The local state of a run: the tensor \<^verbatim>\<open>x\<close>, the list \<^verbatim>\<open>path\<close>, the printed lines.\<close>

record 'a gd_state =
  xt :: "'a point"
  path :: "'a sample list"
  printed :: "'a event list"

text \<open>
  The number of update steps performed, read off the printed lines: a loop body that
  completes performs one update (line 92) and prints one \<open>Iteration\<close> line (line 98).
\<close>

definition updates_performed :: "'a gd_state \<Rightarrow> nat" where
  "updates_performed st = length (filter is_Iteration (printed st))"

text \<open>
  Lines 77-104, one pass through the loop body for index \<open>i\<close>. The result carries the
  new state and whether \<^verbatim>\<open>break\<close> was taken.
\<close>

definition gd_iteration ::
  "('a point \<Rightarrow> 'a) \<Rightarrow> ('a \<Rightarrow> 'a \<Rightarrow> error + 'a) \<Rightarrow> ('a point \<Rightarrow> error + 'a point) \<Rightarrow>
   'a \<Rightarrow> 'a \<Rightarrow> int \<Rightarrow> 'a gd_state \<Rightarrow> error + ('a::{minus,times,ord} gd_state \<times> bool)" where
  "gd_iteration torch_norm func backward learning_rate tolerance i st =
     (case func (fst (xt st)) (snd (xt st)) of
        Inl e \<Rightarrow> Inl e
      | Inr y \<Rightarrow>
     (case backward (xt st) of
        Inl e \<Rightarrow> Inl e
      | Inr grad \<Rightarrow>
     (let x' = (fst (xt st) - learning_rate * fst grad,
                snd (xt st) - learning_rate * snd grad)
      in case func (fst x') (snd x') of
        Inl e \<Rightarrow> Inl e
      | Inr new_y \<Rightarrow>
     (let st' = st\<lparr>xt := x',
                   path := path st @ [(fst x', snd x', new_y)],
                   printed := printed st @ [Iteration i (fst x') (snd x') new_y]\<rparr>;
          grad_norm = torch_norm grad
      in if grad_norm < tolerance
         then Inr (st'\<lparr>printed := printed st' @ [Stopped grad_norm tolerance]\<rparr>, True)
         else Inr (st', False)))))"

text \<open>
  Line 76: \<^verbatim>\<open>for i in range(1, max_iters + 1)\<close> walks a finite list of indices; the walk
  ends when the list is exhausted, at a \<^verbatim>\<open>break\<close>, or at an exception.
\<close>

fun gd_for ::
  "('a point \<Rightarrow> 'a) \<Rightarrow> ('a \<Rightarrow> 'a \<Rightarrow> error + 'a) \<Rightarrow> ('a point \<Rightarrow> error + 'a point) \<Rightarrow>
   'a \<Rightarrow> 'a \<Rightarrow> int list \<Rightarrow> 'a gd_state \<Rightarrow> error + 'a::{minus,times,ord} gd_state" where
  "gd_for torch_norm func backward learning_rate tolerance [] st = Inr st"
| "gd_for torch_norm func backward learning_rate tolerance (i # is) st =
     (case gd_iteration torch_norm func backward learning_rate tolerance i st of
        Inl e \<Rightarrow> Inl e
      | Inr (st', stop) \<Rightarrow>
          if stop then Inr st'
          else gd_for torch_norm func backward learning_rate tolerance is st')"

text \<open>
  Lines 68-74: the tensor, the first evaluation and the first row. Line 68 builds the
  tensor with \<^verbatim>\<open>torch.tensor(start_point, dtype=torch.float32)\<close>: the configured
  coordinates are converted to float32, and it is the converted point that is evaluated
  and recorded.
\<close>

definition gd_init ::
  "('a point \<Rightarrow> 'a point) \<Rightarrow> ('a \<Rightarrow> 'a \<Rightarrow> error + 'a) \<Rightarrow> 'a point \<Rightarrow>
   error + 'a gd_state" where
  "gd_init torch_tensor func start_point =
     (let x = torch_tensor start_point
      in case func (fst x) (snd x) of
        Inl e \<Rightarrow> Inl e
      | Inr y \<Rightarrow>
          Inr \<lparr>xt = x,
               path = [(fst x, snd x, y)],
               printed = [Initial (fst x) (snd x) y]\<rparr>)"

text \<open>The whole run, keeping the final state.\<close>

definition gd_run ::
  "('a point \<Rightarrow> 'a point) \<Rightarrow> ('a point \<Rightarrow> 'a) \<Rightarrow> ('a point \<Rightarrow> error + 'a point) \<Rightarrow>
   ('a \<Rightarrow> 'a \<Rightarrow> error + 'a) \<Rightarrow>
   'a point \<Rightarrow> 'a \<Rightarrow> int \<Rightarrow> 'a \<Rightarrow> error + 'a::{minus,times,ord} gd_state" where
  "gd_run torch_tensor torch_norm backward func start_point learning_rate max_iters tolerance =
     (case gd_init torch_tensor func start_point of
        Inl e \<Rightarrow> Inl e
      | Inr st \<Rightarrow>
          gd_for torch_norm func backward learning_rate tolerance [1..max_iters] st)"

text \<open>Line 106: what the caller receives is \<^verbatim>\<open>path\<close>.\<close>

definition gradient_descent_pytorch ::
  "('a point \<Rightarrow> 'a point) \<Rightarrow> ('a point \<Rightarrow> 'a) \<Rightarrow> ('a point \<Rightarrow> error + 'a point) \<Rightarrow>
   ('a \<Rightarrow> 'a \<Rightarrow> error + 'a) \<Rightarrow>
   'a point \<Rightarrow> 'a \<Rightarrow> int \<Rightarrow> 'a \<Rightarrow> error + 'a::{minus,times,ord} sample list" where
  "gradient_descent_pytorch torch_tensor torch_norm backward func start_point learning_rate
     max_iters tolerance =
     (case gd_run torch_tensor torch_norm backward func start_point learning_rate max_iters
             tolerance of
        Inl e \<Rightarrow> Inl e
      | Inr st \<Rightarrow> Inr (path st))"

subsection \<open>Concrete objectives over the reals\<close>

text \<open>\<^verbatim>\<open>torch.norm\<close> of a two-element gradient: the Euclidean norm.\<close>

definition euclid_norm :: "real point \<Rightarrow> real" where
  "euclid_norm g = sqrt ((fst g)\<^sup>2 + (snd g)\<^sup>2)"

text \<open>The bowl \<open>x1^2 + x2^2\<close> and its gradient.\<close>

definition bowl :: "real \<Rightarrow> real \<Rightarrow> error + real" where
  "bowl x1 x2 = Inr (x1\<^sup>2 + x2\<^sup>2)"

definition bowl_backward :: "real point \<Rightarrow> error + real point" where
  "bowl_backward p = Inr (2 * fst p, 2 * snd p)"

text \<open>The flat objective \<open>0\<close> and its gradient.\<close>

definition flat :: "real \<Rightarrow> real \<Rightarrow> error + real" where
  "flat x1 x2 = Inr 0"

definition flat_backward :: "real point \<Rightarrow> error + real point" where
  "flat_backward p = Inr (0, 0)"

text \<open>
  An objective that divides by \<open>x1\<close> and raises where the division is undefined, as a
  checked implementation of the division would.
\<close>

definition checked_recip :: "real \<Rightarrow> real \<Rightarrow> error + real" where
  "checked_recip x1 x2 = (if x1 = 0 then Inl NumericalError else Inr (1 / x1))"

definition checked_recip_backward :: "real point \<Rightarrow> error + real point" where
  "checked_recip_backward p =
     (if fst p = 0 then Inl NumericalError else Inr (- (1 / (fst p)\<^sup>2), 0))"

subsection \<open>Tensor elements with the non-finite values\<close>

text \<open>
  A tensor operation does not raise on a division by zero: the element becomes
  \<^verbatim>\<open>inf\<close>, \<^verbatim>\<open>-inf\<close> or \<^verbatim>\<open>nan\<close>, and later operations propagate it. The carrier below has
  these three values beside the finite ones (finite arithmetic exact, zero unsigned),
  with the IEEE 754 rules for them.
\<close>

datatype tfloat = Fin real | PInf | NInf | NaN

instantiation tfloat :: "{minus,times,ord}"
begin

fun minus_tfloat :: "tfloat \<Rightarrow> tfloat \<Rightarrow> tfloat" where
  "minus_tfloat NaN b = NaN"
| "minus_tfloat a NaN = NaN"
| "minus_tfloat (Fin a) (Fin b) = Fin (a - b)"
| "minus_tfloat (Fin a) PInf = NInf"
| "minus_tfloat (Fin a) NInf = PInf"
| "minus_tfloat PInf PInf = NaN"
| "minus_tfloat PInf b = PInf"
| "minus_tfloat NInf NInf = NaN"
| "minus_tfloat NInf b = NInf"

fun times_tfloat :: "tfloat \<Rightarrow> tfloat \<Rightarrow> tfloat" where
  "times_tfloat NaN b = NaN"
| "times_tfloat a NaN = NaN"
| "times_tfloat (Fin a) (Fin b) = Fin (a * b)"
| "times_tfloat (Fin a) PInf = (if a = 0 then NaN else if 0 < a then PInf else NInf)"
| "times_tfloat (Fin a) NInf = (if a = 0 then NaN else if 0 < a then NInf else PInf)"
| "times_tfloat PInf (Fin b) = (if b = 0 then NaN else if 0 < b then PInf else NInf)"
| "times_tfloat NInf (Fin b) = (if b = 0 then NaN else if 0 < b then NInf else PInf)"
| "times_tfloat PInf PInf = PInf"
| "times_tfloat PInf NInf = NInf"
| "times_tfloat NInf PInf = NInf"
| "times_tfloat NInf NInf = PInf"

fun less_tfloat :: "tfloat \<Rightarrow> tfloat \<Rightarrow> bool" where
  "less_tfloat (Fin a) (Fin b) = (a < b)"
| "less_tfloat (Fin a) PInf = True"
| "less_tfloat NInf (Fin b) = True"
| "less_tfloat NInf PInf = True"
| "less_tfloat a b = False"

fun less_eq_tfloat :: "tfloat \<Rightarrow> tfloat \<Rightarrow> bool" where
  "less_eq_tfloat NaN b = False"
| "less_eq_tfloat a NaN = False"
| "less_eq_tfloat (Fin a) (Fin b) = (a \<le> b)"
| "less_eq_tfloat a PInf = True"
| "less_eq_tfloat NInf b = True"
| "less_eq_tfloat a b = False"

instance ..

end

fun tf_neg :: "tfloat \<Rightarrow> tfloat" where
  "tf_neg (Fin a) = Fin (- a)"
| "tf_neg PInf = NInf"
| "tf_neg NInf = PInf"
| "tf_neg NaN = NaN"

fun tf_div :: "tfloat \<Rightarrow> tfloat \<Rightarrow> tfloat" where
  "tf_div NaN b = NaN"
| "tf_div a NaN = NaN"
| "tf_div (Fin a) (Fin b) =
     (if b = 0 then (if a = 0 then NaN else if 0 < a then PInf else NInf)
      else Fin (a / b))"
| "tf_div (Fin a) b = Fin 0"
| "tf_div PInf (Fin b) = (if 0 \<le> b then PInf else NInf)"
| "tf_div NInf (Fin b) = (if 0 \<le> b then NInf else PInf)"
| "tf_div a b = NaN"

text \<open>\<^verbatim>\<open>torch.norm\<close> on this carrier: a \<^verbatim>\<open>nan\<close> element gives \<^verbatim>\<open>nan\<close>, otherwise an infinite one gives \<^verbatim>\<open>inf\<close>.\<close>

fun tf_norm :: "tfloat point \<Rightarrow> tfloat" where
  "tf_norm (Fin a, Fin b) = Fin (sqrt (a\<^sup>2 + b\<^sup>2))"
| "tf_norm (NaN, b) = NaN"
| "tf_norm (a, NaN) = NaN"
| "tf_norm (a, b) = PInf"

text \<open>
  The objective \<^verbatim>\<open>lambda x1, x2: 1 / x1\<close> written with tensor operations, and the gradient
  reverse mode computes for it: \<open>- r * r\<close> for the reciprocal \<open>r\<close>, and zero for the
  unused \<open>x2\<close>. Neither raises.
\<close>

definition recip :: "tfloat \<Rightarrow> tfloat \<Rightarrow> error + tfloat" where
  "recip x1 x2 = Inr (tf_div (Fin 1) x1)"

definition recip_backward :: "tfloat point \<Rightarrow> error + tfloat point" where
  "recip_backward p = (let r = tf_div (Fin 1) (fst p) in Inr (tf_neg (r * r), Fin 0))"

subsection \<open>One descent step between two rows\<close>

text \<open>
  Row \<open>s'\<close> follows row \<open>s\<close> by one update with gradient \<open>g\<close>: \<open>g\<close> is the gradient at
  the point of \<open>s\<close>, the point of \<open>s'\<close> is that point minus \<open>lr * g\<close> in each coordinate,
  and the value of \<open>s'\<close> is the objective there.
\<close>

definition descent_step ::
  "('a \<Rightarrow> 'a \<Rightarrow> error + 'a) \<Rightarrow> ('a point \<Rightarrow> error + 'a point) \<Rightarrow>
   'a \<Rightarrow> 'a::{minus,times,ord} sample \<Rightarrow> 'a sample \<Rightarrow> 'a point \<Rightarrow> bool" where
  "descent_step f b lr s s' g \<longleftrightarrow>
     b (sample_point s) = Inr g \<and>
     sample_point s' = (fst (sample_point s) - lr * fst g, snd (sample_point s) - lr * snd g) \<and>
     f (fst (sample_point s')) (snd (sample_point s')) = Inr (sample_value s')"

section \<open>The loop, one iteration at a time\<close>

lemma gd_iteration_Inr:
  assumes "gd_iteration tn f b lr tol i st = Inr (st', stop)"
  shows "\<exists>y g ny.
    f (fst (xt st)) (snd (xt st)) = Inr y \<and>
    b (xt st) = Inr g \<and>
    xt st' = (fst (xt st) - lr * fst g, snd (xt st) - lr * snd g) \<and>
    f (fst (xt st')) (snd (xt st')) = Inr ny \<and>
    path st' = path st @ [(fst (xt st'), snd (xt st'), ny)] \<and>
    stop = (tn g < tol) \<and>
    updates_performed st' = Suc (updates_performed st)"
proof (cases "f (fst (xt st)) (snd (xt st))")
  case (Inl e)
  with assms show ?thesis by (simp add: gd_iteration_def)
next
  case y: (Inr y)
  show ?thesis
  proof (cases "b (xt st)")
    case (Inl e)
    with assms y show ?thesis by (simp add: gd_iteration_def)
  next
    case g: (Inr g)
    let ?x = "(fst (xt st) - lr * fst g, snd (xt st) - lr * snd g)"
    show ?thesis
    proof (cases "f (fst ?x) (snd ?x)")
      case (Inl e)
      with assms y g show ?thesis by (simp add: gd_iteration_def Let_def)
    next
      case ny: (Inr ny)
      with assms y g show ?thesis
        by (cases "tn g < tol") (auto simp: gd_iteration_def Let_def updates_performed_def)
    qed
  qed
qed

lemma gd_for_Cons_Inr:
  assumes "gd_for tn f b lr tol (i # is) st = Inr st'"
  shows "\<exists>st1 stop.
    gd_iteration tn f b lr tol i st = Inr (st1, stop) \<and>
    (stop \<longrightarrow> st' = st1) \<and>
    (\<not> stop \<longrightarrow> gd_for tn f b lr tol is st1 = Inr st')"
  using assms by (auto split: sum.splits if_splits)

lemma gd_for_length:
  assumes "gd_for tn f b lr tol is st = Inr st'"
  shows "length (path st) \<le> length (path st') \<and>
         length (path st') \<le> length (path st) + length is \<and>
         (is \<noteq> [] \<longrightarrow> length (path st) < length (path st')) \<and>
         updates_performed st' + length (path st) = updates_performed st + length (path st')"
  using assms
proof (induction "is" arbitrary: st)
  case Nil
  then show ?case by simp
next
  case (Cons i "is")
  from gd_for_Cons_Inr[OF Cons.prems] obtain st1 stop
    where it: "gd_iteration tn f b lr tol i st = Inr (st1, stop)"
    and rest: "stop \<longrightarrow> st' = st1" "\<not> stop \<longrightarrow> gd_for tn f b lr tol is st1 = Inr st'"
    by blast
  from gd_iteration_Inr[OF it] have l1: "length (path st1) = Suc (length (path st))"
    and u1: "updates_performed st1 = Suc (updates_performed st)"
    by auto
  show ?case
  proof (cases stop)
    case True
    with rest have "st' = st1" by simp
    with l1 u1 show ?thesis by simp
  next
    case False
    with rest have "gd_for tn f b lr tol is st1 = Inr st'" by simp
    from Cons.IH[OF this] l1 u1 show ?thesis by auto
  qed
qed

lemma gd_for_steps:
  assumes "gd_for tn f b lr tol is st = Inr st'"
    and "path st \<noteq> []" and "sample_point (last (path st)) = xt st"
  shows "take (length (path st)) (path st') = path st \<and>
         sample_point (last (path st')) = xt st' \<and>
         (\<forall>k. length (path st) \<le> k \<and> k < length (path st') \<longrightarrow>
            (\<exists>g. descent_step f b lr (path st' ! (k - 1)) (path st' ! k) g \<and>
                 ((k = length (path st') - 1) \<longleftrightarrow>
                  (tn g < tol \<or> k - length (path st) + 1 = length is))))"
  using assms
proof (induction "is" arbitrary: st)
  case Nil
  then show ?case by auto
next
  case (Cons i "is")
  let ?L = "length (path st)"
  from gd_for_Cons_Inr[OF Cons.prems(1)] obtain st1 stop
    where it: "gd_iteration tn f b lr tol i st = Inr (st1, stop)"
    and rest: "stop \<longrightarrow> st' = st1" "\<not> stop \<longrightarrow> gd_for tn f b lr tol is st1 = Inr st'"
    by blast
  from gd_iteration_Inr[OF it] obtain g ny where
    g: "b (xt st) = Inr g"
    and x1: "xt st1 = (fst (xt st) - lr * fst g, snd (xt st) - lr * snd g)"
    and ny: "f (fst (xt st1)) (snd (xt st1)) = Inr ny"
    and p1: "path st1 = path st @ [(fst (xt st1), snd (xt st1), ny)]"
    and stop: "stop = (tn g < tol)"
    by blast
  let ?s1 = "(fst (xt st1), snd (xt st1), ny)"
  have last1: "sample_point (last (path st1)) = xt st1"
    by (simp add: p1 sample_point_def)
  have ne1: "path st1 \<noteq> []" by (simp add: p1)
  have first: "descent_step f b lr (last (path st)) ?s1 g"
    using g x1 ny Cons.prems(3) by (simp add: descent_step_def sample_point_def sample_value_def)
  have lastnth: "last (path st) = path st ! (?L - 1)"
    using Cons.prems(2) by (simp add: last_conv_nth)
  have Lpos: "0 < ?L" using Cons.prems(2) by simp
  have l1: "length (path st1) = Suc ?L" by (simp add: p1)
  show ?case
  proof (cases stop)
    case True
    with rest have eq: "st' = st1" by simp
    have s0: "descent_step f b lr (path st' ! (?L - 1)) (path st' ! ?L) g"
      using first Lpos by (simp add: eq p1 lastnth nth_append)
    have only: "k = ?L" if "?L \<le> k \<and> k < length (path st')" for k
      using that by (simp add: eq p1)
    have lenp: "length (path st') - 1 = ?L" by (simp add: eq p1)
    have c1: "take ?L (path st') = path st" by (simp add: eq p1)
    have c2: "sample_point (last (path st')) = xt st'" using last1 by (simp add: eq)
    have c3: "\<exists>g. descent_step f b lr (path st' ! (k - 1)) (path st' ! k) g \<and>
                 ((k = length (path st') - 1) \<longleftrightarrow>
                  (tn g < tol \<or> k - ?L + 1 = length (i # is)))"
      if "?L \<le> k \<and> k < length (path st')" for k
    proof -
      from only[OF that] have k: "k = ?L" .
      from True stop have "tn g < tol" by simp
      with s0 lenp show ?thesis unfolding k by (intro exI[of _ g]) simp
    qed
    from c1 c2 c3 show ?thesis by blast
  next
    case False
    with rest have run: "gd_for tn f b lr tol is st1 = Inr st'" by simp
    note IH = Cons.IH[OF run ne1 last1]
    note len = gd_for_length[OF run]
    from IH have tk: "take (Suc ?L) (path st') = path st1" by (simp add: l1)
    have c2: "sample_point (last (path st')) = xt st'" using IH by blast
    have nth_old: "path st' ! j = path st1 ! j" if "j < Suc ?L" for j
      using tk that by (metis nth_take)
    have c1: "take ?L (path st') = path st"
    proof -
      have "take ?L (take (Suc ?L) (path st')) = take ?L (path st1)" by (simp only: tk)
      then show ?thesis by (simp add: p1)
    qed
    have s0: "descent_step f b lr (path st' ! (?L - 1)) (path st' ! ?L) g"
      using first Lpos by (simp add: nth_old p1 lastnth nth_append)
    have iff0: "(?L = length (path st') - 1) \<longleftrightarrow> (tn g < tol \<or> ?L - ?L + 1 = length (i # is))"
    proof (cases "is = []")
      case True
      with run have "st' = st1" by simp
      then show ?thesis using True by (simp add: p1)
    next
      case False
      with len have "Suc ?L < length (path st')" by (simp add: l1)
      with False stop \<open>\<not> stop\<close> show ?thesis by auto
    qed
    have c3: "\<exists>g. descent_step f b lr (path st' ! (k - 1)) (path st' ! k) g \<and>
                 ((k = length (path st') - 1) \<longleftrightarrow>
                  (tn g < tol \<or> k - ?L + 1 = length (i # is)))"
      if k: "?L \<le> k \<and> k < length (path st')" for k
    proof (cases "k = ?L")
      case True
      with s0 iff0 show ?thesis by (intro exI[of _ g]) simp
    next
      case False
      with k have k1: "length (path st1) \<le> k \<and> k < length (path st')" by (simp add: l1)
      with IH obtain g' where
        "descent_step f b lr (path st' ! (k - 1)) (path st' ! k) g'"
        "(k = length (path st') - 1) \<longleftrightarrow> (tn g' < tol \<or> k - length (path st1) + 1 = length is)"
        by blast
      moreover have "(k - length (path st1) + 1 = length is) \<longleftrightarrow> (k - ?L + 1 = length (i # is))"
        using k1 by (auto simp: l1)
      ultimately show ?thesis by blast
    qed
    from c1 c2 c3 show ?thesis by blast
  qed
qed

lemma gd_run_Inr:
  assumes "gd_run tt tn b f sp lr m tol = Inr st"
  shows "\<exists>y. f (fst (tt sp)) (snd (tt sp)) = Inr y \<and>
     gd_for tn f b lr tol [1..m]
       \<lparr>xt = tt sp, path = [(fst (tt sp), snd (tt sp), y)],
         printed = [Initial (fst (tt sp)) (snd (tt sp)) y]\<rparr> = Inr st"
  using assms by (auto simp: gd_run_def gd_init_def Let_def split: sum.splits)

lemma gd_run_first:
  assumes "gd_run tt tn b f sp lr m tol = Inr st"
  shows "\<exists>y. f (fst (tt sp)) (snd (tt sp)) = Inr y \<and> path st \<noteq> [] \<and> path st ! 0 = (fst (tt sp), snd (tt sp), y)"
proof -
  from gd_run_Inr[OF assms] obtain y where y: "f (fst (tt sp)) (snd (tt sp)) = Inr y"
    and run: "gd_for tn f b lr tol [1..m]
       \<lparr>xt = tt sp, path = [(fst (tt sp), snd (tt sp), y)],
         printed = [Initial (fst (tt sp)) (snd (tt sp)) y]\<rparr> = Inr st"
    (is "gd_for _ _ _ _ _ _ ?st0 = _")
    by blast
  have "take (length (path ?st0)) (path st) = path ?st0"
    using gd_for_steps[OF run] by (simp add: sample_point_def)
  then have "take 1 (path st) = [(fst (tt sp), snd (tt sp), y)]" by simp
  then have "path st \<noteq> [] \<and> path st ! 0 = (fst (tt sp), snd (tt sp), y)"
    by (cases "path st") auto
  with y show ?thesis by blast
qed

lemma gd_run_length:
  assumes "gd_run tt tn b f sp lr m tol = Inr st"
  shows "1 \<le> length (path st) \<and> int (length (path st)) \<le> 1 + max 0 m \<and>
         (1 \<le> m \<longrightarrow> 2 \<le> length (path st)) \<and>
         length (path st) = 1 + updates_performed st"
proof -
  from gd_run_Inr[OF assms] obtain y where
    run: "gd_for tn f b lr tol [1..m]
       \<lparr>xt = tt sp, path = [(fst (tt sp), snd (tt sp), y)],
         printed = [Initial (fst (tt sp)) (snd (tt sp)) y]\<rparr> = Inr st"
    by blast
  have "1 \<le> m \<Longrightarrow> [1..m] \<noteq> []" by (simp add: upto.simps)
  with gd_for_length[OF run] show ?thesis
    by (auto simp: updates_performed_def)
qed

lemma gd_run_steps:
  assumes "gd_run tt tn b f sp lr m tol = Inr st" and "1 \<le> k" and "k < length (path st)"
  shows "\<exists>g. descent_step f b lr (path st ! (k - 1)) (path st ! k) g \<and>
             ((k = length (path st) - 1) \<longleftrightarrow> (tn g < tol \<or> int k = m))"
proof -
  from gd_run_Inr[OF assms(1)] obtain y where
    run: "gd_for tn f b lr tol [1..m]
       \<lparr>xt = tt sp, path = [(fst (tt sp), snd (tt sp), y)],
         printed = [Initial (fst (tt sp)) (snd (tt sp)) y]\<rparr> = Inr st"
    (is "gd_for _ _ _ _ _ _ ?st0 = _")
    by blast
  have "length (path ?st0) \<le> k \<and> k < length (path st)"
    using assms(2,3) by simp
  with gd_for_steps[OF run] have
    "\<exists>g. descent_step f b lr (path st ! (k - 1)) (path st ! k) g \<and>
                 ((k = length (path st) - 1) \<longleftrightarrow>
                  (tn g < tol \<or> k - length (path ?st0) + 1 = length [1..m]))"
    by (simp add: sample_point_def)
  then obtain g where
    "descent_step f b lr (path st ! (k - 1)) (path st ! k) g"
    "(k = length (path st) - 1) \<longleftrightarrow> (tn g < tol \<or> k - 1 + 1 = length [1..m])"
    by auto
  moreover have "(k - 1 + 1 = length [1..m]) \<longleftrightarrow> (int k = m)"
    using assms(2) by auto
  ultimately show ?thesis by blast
qed

lemma pytorch_Inr:
  "gradient_descent_pytorch tt tn b f sp lr m tol = Inr p \<longleftrightarrow>
   (\<exists>st. gd_run tt tn b f sp lr m tol = Inr st \<and> path st = p)"
  by (auto simp: gradient_descent_pytorch_def split: sum.splits)

section \<open>Errors and totality\<close>

lemma gd_iteration_Inl:
  assumes "gd_iteration tn f b lr tol i st = Inl e"
  shows "(\<exists>a c. f a c = Inl e) \<or> (\<exists>q. b q = Inl e)"
proof (cases "f (fst (xt st)) (snd (xt st))")
  case (Inl e')
  with assms have "e' = e" by (simp add: gd_iteration_def)
  with Inl show ?thesis by blast
next
  case y: (Inr y)
  show ?thesis
  proof (cases "b (xt st)")
    case (Inl e')
    with assms y have "e' = e" by (simp add: gd_iteration_def)
    with Inl show ?thesis by blast
  next
    case g: (Inr g)
    let ?x = "(fst (xt st) - lr * fst g, snd (xt st) - lr * snd g)"
    show ?thesis
    proof (cases "f (fst ?x) (snd ?x)")
      case (Inl e')
      with assms y g have "e' = e" by (simp add: gd_iteration_def Let_def)
      with Inl show ?thesis by blast
    next
      case (Inr ny)
      with assms y g show ?thesis
        by (cases "tn g < tol") (simp_all add: gd_iteration_def Let_def)
    qed
  qed
qed

lemma gd_for_Inl:
  assumes "gd_for tn f b lr tol is st = Inl e"
  shows "(\<exists>a c. f a c = Inl e) \<or> (\<exists>q. b q = Inl e)"
  using assms
proof (induction "is" arbitrary: st)
  case Nil
  then show ?case by simp
next
  case (Cons i "is")
  show ?case
  proof (cases "gd_iteration tn f b lr tol i st")
    case (Inl e')
    with Cons.prems have "e' = e" by simp
    with Inl gd_iteration_Inl show ?thesis by blast
  next
    case (Inr r)
    obtain st1 stop where r: "r = (st1, stop)" by (cases r)
    with Inr Cons.prems have "\<not> stop" and "gd_for tn f b lr tol is st1 = Inl e"
      by (auto split: if_splits)
    with Cons.IH show ?thesis by blast
  qed
qed

lemma gd_run_Inl:
  assumes "gd_run tt tn b f sp lr m tol = Inl e"
  shows "(\<exists>a c. f a c = Inl e) \<or> (\<exists>q. b q = Inl e)"
proof (cases "f (fst (tt sp)) (snd (tt sp))")
  case (Inl e')
  with assms have "e' = e" by (simp add: gd_run_def gd_init_def Let_def)
  with Inl show ?thesis by blast
next
  case (Inr y)
  with assms have "gd_for tn f b lr tol [1..m]
       \<lparr>xt = tt sp, path = [(fst (tt sp), snd (tt sp), y)],
         printed = [Initial (fst (tt sp)) (snd (tt sp)) y]\<rparr> = Inl e"
    by (simp add: gd_run_def gd_init_def Let_def)
  then show ?thesis by (rule gd_for_Inl)
qed

lemma pytorch_Inl:
  "gradient_descent_pytorch tt tn b f sp lr m tol = Inl e \<longleftrightarrow> gd_run tt tn b f sp lr m tol = Inl e"
  by (auto simp: gradient_descent_pytorch_def split: sum.splits)

lemma gd_run_no_iterations:
  assumes "m < 1" and "f (fst (tt sp)) (snd (tt sp)) = Inr y"
  shows "gd_run tt tn b f sp lr m tol =
    Inr \<lparr>xt = tt sp, path = [(fst (tt sp), snd (tt sp), y)],
         printed = [Initial (fst (tt sp)) (snd (tt sp)) y]\<rparr>"
  using assms by (simp add: gd_run_def gd_init_def Let_def upto.simps)

lemma gd_for_total:
  assumes "\<forall>a c. \<exists>y. f a c = Inr y" and "\<forall>q. \<exists>g. b q = Inr g"
  shows "\<exists>st'. gd_for tn f b lr tol is st = Inr st'"
proof (induction "is" arbitrary: st)
  case Nil
  show ?case by simp
next
  case (Cons i "is")
  show ?case
  proof (cases "gd_for tn f b lr tol (i # is) st")
    case (Inl e)
    from gd_for_Inl[OF this] assms show ?thesis by (metis Inl_Inr_False)
  next
    case (Inr st')
    then show ?thesis by blast
  qed
qed

lemma gd_run_total:
  assumes "\<forall>a c. \<exists>y. f a c = Inr y" and "\<forall>q. \<exists>g. b q = Inr g"
  shows "\<exists>st. gd_run tt tn b f sp lr m tol = Inr st"
proof (cases "gd_run tt tn b f sp lr m tol")
  case (Inl e)
  from gd_run_Inl[OF this] assms show ?thesis by (metis Inl_Inr_False)
next
  case (Inr st)
  then show ?thesis by blast
qed

section \<open>Evaluating concrete runs\<close>

text \<open>
  A comparison of the Euclidean norm with a tolerance is a comparison of squares, which
  the simplifier evaluates on numerals.
\<close>

lemma euclid_norm_less:
  "euclid_norm g < t \<longleftrightarrow> 0 < t \<and> (fst g)\<^sup>2 + (snd g)\<^sup>2 < t\<^sup>2"
proof (cases "0 < t")
  case True
  then have t: "sqrt (t\<^sup>2) = t" by simp
  have "sqrt ((fst g)\<^sup>2 + (snd g)\<^sup>2) < sqrt (t\<^sup>2) \<longleftrightarrow> (fst g)\<^sup>2 + (snd g)\<^sup>2 < t\<^sup>2"
    by (rule real_sqrt_less_iff)
  then have "sqrt ((fst g)\<^sup>2 + (snd g)\<^sup>2) < t \<longleftrightarrow> (fst g)\<^sup>2 + (snd g)\<^sup>2 < t\<^sup>2"
    by (simp only: t)
  with True show ?thesis by (simp only: euclid_norm_def simp_thms)
next
  case False
  have "0 \<le> euclid_norm g" by (simp add: euclid_norm_def)
  with False show ?thesis by auto
qed

lemma euclid_norm_3_4: "euclid_norm (3, 4) = 5"
proof -
  have "sqrt (5\<^sup>2) = (5::real)" by simp
  then show ?thesis by (simp add: euclid_norm_def power2_eq_square)
qed

lemmas run_eval = gradient_descent_pytorch_def gd_run_def gd_init_def gd_iteration_def Let_def
  bowl_def bowl_backward_def flat_def flat_backward_def
  checked_recip_def checked_recip_backward_def recip_def recip_backward_def
  upto.simps power2_eq_square

section \<open>Concrete runs\<close>

lemma bowl_run2:
  "gradient_descent_pytorch id euclid_norm bowl_backward bowl (1, 1) (1/4) 2 0
     = Inr [(1, 1, 2), (1/2, 1/2, 1/2), (1/4, 1/4, 1/8)]"
  by (simp add: run_eval euclid_norm_less)

lemma bowl_state2:
  "gd_run id euclid_norm bowl_backward bowl (1, 1) (1/4) 2 0
     = Inr \<lparr>xt = (1/4, 1/4),
            path = [(1, 1, 2), (1/2, 1/2, 1/2), (1/4, 1/4, 1/8)],
            printed = [Initial 1 1 2, Iteration 1 (1/2) (1/2) (1/2),
                       Iteration 2 (1/4) (1/4) (1/8)]\<rparr>"
  by (simp add: run_eval euclid_norm_less)

lemma bowl_run_tol:
  "gradient_descent_pytorch id euclid_norm bowl_backward bowl (3/2, 2) (1/4) 3 5
     = Inr [(3/2, 2, 25/4), (3/4, 1, 25/16), (3/8, 1/2, 25/64)]"
  by (simp add: run_eval euclid_norm_less)

lemma flat_run1:
  "gradient_descent_pytorch id euclid_norm flat_backward flat (0, 0) (1/10) 1 1
     = Inr [(0, 0, 0), (0, 0, 0)]"
  by (simp add: run_eval euclid_norm_less)

lemma flat_run5:
  "gradient_descent_pytorch id euclid_norm flat_backward flat (0, 0) (1/10) 5 1
     = Inr [(0, 0, 0), (0, 0, 0)]"
  by (simp add: run_eval euclid_norm_less)

text \<open>
  The gradients handed to the objectives over the reals are their gradients: the
  partial derivatives in \<open>x1\<close> and \<open>x2\<close>.
\<close>

lemma bowl_backward_gradient:
  "((\<lambda>t. t\<^sup>2 + x2\<^sup>2) has_field_derivative 2 * x1) (at x1)"
  "((\<lambda>t. x1\<^sup>2 + t\<^sup>2) has_field_derivative 2 * x2) (at (x2::real))"
  by (auto intro!: derivative_eq_intros)

lemma flat_backward_gradient:
  "((\<lambda>t. 0) has_field_derivative (0::real)) (at x)"
  by simp

lemma checked_recip_backward_gradient:
  fixes x1 :: real
  assumes "x1 \<noteq> 0"
  shows "((\<lambda>t. 1 / t) has_field_derivative - (1 / x1\<^sup>2)) (at x1)"
  using assms by (auto intro!: derivative_eq_intros simp: power2_eq_square)

lemma bowl_run_early:
  "gradient_descent_pytorch id euclid_norm bowl_backward bowl (1, 1) (1/4) 5 10
     = Inr [(1, 1, 2), (1/2, 1/2, 1/2)]"
  by (simp add: run_eval euclid_norm_less)

lemma bowl_run_uphill:
  "gradient_descent_pytorch id euclid_norm bowl_backward bowl (1, 1) (-1) 1 (-1)
     = Inr [(1, 1, 2), (3, 3, 18)]"
  by (simp add: run_eval euclid_norm_less)

lemma recip_returns:
  "\<exists>p. gradient_descent_pytorch tt tf_norm recip_backward recip sp lr m tol = Inr p"
proof -
  have t1: "\<forall>a c. \<exists>y. recip a c = Inr y" by (simp add: recip_def)
  have t2: "\<forall>q. \<exists>g. recip_backward q = Inr g" by (simp add: recip_backward_def Let_def)
  from gd_run_total[OF t1 t2] obtain st
    where "gd_run tt tf_norm recip_backward recip sp lr m tol = Inr st" by blast
  then show ?thesis by (simp add: gradient_descent_pytorch_def)
qed

lemma checked_recip_run:
  "gradient_descent_pytorch id euclid_norm checked_recip_backward checked_recip
     (0, 0) (1/100) 1 (1/1000000) = Inl NumericalError"
  by (simp add: run_eval)

lemma bowl_step_value:
  fixes lr :: real
  assumes "0 \<le> lr" and "lr \<le> 1"
  shows "(x1 - lr * (2 * x1))\<^sup>2 + (x2 - lr * (2 * x2))\<^sup>2 \<le> x1\<^sup>2 + x2\<^sup>2"
proof -
  have "\<bar>1 - 2 * lr\<bar> \<le> 1" using assms by (simp add: abs_le_iff)
  then have c: "(1 - 2 * lr)\<^sup>2 \<le> 1" by (simp add: abs_square_le_1)
  have "(x1 - lr * (2 * x1))\<^sup>2 + (x2 - lr * (2 * x2))\<^sup>2 = (1 - 2 * lr)\<^sup>2 * (x1\<^sup>2 + x2\<^sup>2)"
    by (simp add: power2_eq_square algebra_simps)
  also have "\<dots> \<le> 1 * (x1\<^sup>2 + x2\<^sup>2)"
    by (rule mult_right_mono[OF c]) simp
  finally show ?thesis by simp
qed

section \<open>The claims\<close>

text \<open>
  C1. In a returned trajectory \<open>p\<close>, every row \<open>k\<close> from 1 to the last has the point
  of row \<open>k - 1\<close> minus \<open>learning_rate\<close> times the gradient at the point of row
  \<open>k - 1\<close>, in each of the two coordinates.
\<close>

theorem trajectory_update_rule:
  assumes "gradient_descent_pytorch tt tn b f sp lr m tol = Inr p"
    and "1 \<le> k" and "k < length p"
  shows "\<exists>g. b (sample_point (p ! (k - 1))) = Inr g \<and>
             fst (sample_point (p ! k)) = fst (sample_point (p ! (k - 1))) - lr * fst g \<and>
             snd (sample_point (p ! k)) = snd (sample_point (p ! (k - 1))) - lr * snd g"
proof -
  from assms(1) obtain st where run: "gd_run tt tn b f sp lr m tol = Inr st" and p: "path st = p"
    by (auto simp: pytorch_Inr)
  from gd_run_steps[OF run assms(2)] assms(3) p
  obtain g where "descent_step f b lr (p ! (k - 1)) (p ! k) g" by auto
  then show ?thesis by (auto simp: descent_step_def)
qed

theorem trajectory_update_rule_witness:
  "gradient_descent_pytorch id euclid_norm bowl_backward bowl (1, 1) (1/4) 2 0
     = Inr [(1, 1, 2), (1/2, 1/2, 1/2), (1/4, 1/4, 1/8)] \<and>
   (1::nat) \<le> 2 \<and> 2 < length [(1::real, 1::real, 2::real), (1/2, 1/2, 1/2), (1/4, 1/4, 1/8)] \<and>
   (\<exists>g. bowl_backward (sample_point ([(1, 1, 2), (1/2, 1/2, 1/2), (1/4, 1/4, 1/8)] ! (2 - 1))) = Inr g \<and>
        fst (sample_point ([(1, 1, 2), (1/2, 1/2, 1/2), (1/4, 1/4, 1/8)] ! 2))
          = fst (sample_point ([(1, 1, 2), (1/2, 1/2, 1/2), (1/4, 1/4, 1/8)] ! (2 - 1))) - (1/4) * fst g \<and>
        snd (sample_point ([(1, 1, 2), (1/2, 1/2, 1/2), (1/4, 1/4, 1/8)] ! 2))
          = snd (sample_point ([(1, 1, 2), (1/2, 1/2, 1/2), (1/4, 1/4, 1/8)] ! (2 - 1))) - (1/4) * snd g)"
  using trajectory_update_rule[OF bowl_run2, of 2] bowl_run2 by simp

text \<open>
  C2. Iteration \<open>k\<close> of a run is its last one exactly when the Euclidean norm of the
  gradient taken at the point before the update of iteration \<open>k\<close> is strictly below the
  tolerance, or \<open>k\<close> is \<open>max_iters\<close>. A norm equal to the tolerance does not stop the run.
\<close>

theorem stop_rule:
  assumes "gradient_descent_pytorch tt euclid_norm b f sp lr m tol = Inr p"
    and "1 \<le> k" and "k < length p"
    and "b (sample_point (p ! (k - 1))) = Inr g"
  shows "((k = length p - 1) \<longleftrightarrow> (euclid_norm g < tol \<or> int k = m)) \<and>
         (euclid_norm g = tol \<and> int k \<noteq> m \<longrightarrow> k < length p - 1)"
proof -
  from assms(1) obtain st where run: "gd_run tt euclid_norm b f sp lr m tol = Inr st"
    and p: "path st = p"
    by (auto simp: pytorch_Inr)
  from gd_run_steps[OF run assms(2)] assms(3) p
  obtain g' where "descent_step f b lr (p ! (k - 1)) (p ! k) g'"
    and iff: "(k = length p - 1) \<longleftrightarrow> (euclid_norm g' < tol \<or> int k = m)" by auto
  with assms(4) have "g' = g" by (simp add: descent_step_def)
  with iff have main: "(k = length p - 1) \<longleftrightarrow> (euclid_norm g < tol \<or> int k = m)" by simp
  moreover have "k < length p - 1" if "euclid_norm g = tol \<and> int k \<noteq> m"
  proof -
    from that main have "k \<noteq> length p - 1" by simp
    with assms(3) show ?thesis by simp
  qed
  ultimately show ?thesis by blast
qed

theorem stop_rule_witness:
  "gradient_descent_pytorch id euclid_norm bowl_backward bowl (3/2, 2) (1/4) 3 5
     = Inr [(3/2, 2, 25/4), (3/4, 1, 25/16), (3/8, 1/2, 25/64)] \<and>
   bowl_backward (sample_point ([(3/2, 2, 25/4), (3/4, 1, 25/16), (3/8, 1/2, 25/64)] ! (1 - 1)))
     = Inr (3, 4) \<and>
   euclid_norm (3, 4) = 5 \<and> int 1 \<noteq> 3 \<and>
   (1::nat) < length [(3/2::real, 2::real, 25/4::real), (3/4, 1, 25/16), (3/8, 1/2, 25/64)] - 1 \<and>
   bowl_backward (sample_point ([(3/2, 2, 25/4), (3/4, 1, 25/16), (3/8, 1/2, 25/64)] ! (2 - 1)))
     = Inr (3/2, 2) \<and>
   euclid_norm (3/2, 2) < 5 \<and>
   (2::nat) = length [(3/2::real, 2::real, 25/4::real), (3/4, 1, 25/16), (3/8, 1/2, 25/64)] - 1"
proof -
  let ?p = "[(3/2::real, 2::real, 25/4::real), (3/4, 1, 25/16), (3/8, 1/2, 25/64)]"
  have g1: "bowl_backward (sample_point (?p ! (1 - 1))) = Inr (3, 4)"
    by (simp add: bowl_backward_def sample_point_def)
  have g2: "bowl_backward (sample_point (?p ! (2 - 1))) = Inr (3/2, 2)"
    by (simp add: bowl_backward_def sample_point_def)
  have n2: "euclid_norm (3/2, 2) < 5"
    by (simp add: euclid_norm_less power2_eq_square)
  from stop_rule[OF bowl_run_tol _ _ g1] have "(1::nat) < length ?p - 1"
    by (simp add: euclid_norm_3_4)
  moreover from stop_rule[OF bowl_run_tol _ _ g2] n2 have "(2::nat) = length ?p - 1"
    by simp
  ultimately show ?thesis
    using bowl_run_tol g1 g2 n2 euclid_norm_3_4 by simp
qed

text \<open>
  C3. With \<open>max_iters \<ge> 1\<close>, the returned trajectory has between 1 and
  \<open>max_iters + 1\<close> rows, and one row more than update steps were performed.
\<close>

theorem trajectory_length:
  assumes "gd_run tt tn b f sp lr m tol = Inr st" and "1 \<le> m"
  shows "gradient_descent_pytorch tt tn b f sp lr m tol = Inr (path st) \<and>
         1 \<le> length (path st) \<and> int (length (path st)) \<le> m + 1 \<and>
         length (path st) = 1 + updates_performed st"
proof -
  from assms(1) have "gradient_descent_pytorch tt tn b f sp lr m tol = Inr (path st)"
    by (simp add: gradient_descent_pytorch_def)
  moreover from gd_run_length[OF assms(1)] assms(2)
  have "1 \<le> length (path st)" and "int (length (path st)) \<le> m + 1"
    and "length (path st) = 1 + updates_performed st"
    by simp_all
  ultimately show ?thesis by blast
qed

theorem trajectory_length_witness:
  "gd_run id euclid_norm bowl_backward bowl (1, 1) (1/4) 2 0
     = Inr \<lparr>xt = (1/4, 1/4),
            path = [(1, 1, 2), (1/2, 1/2, 1/2), (1/4, 1/4, 1/8)],
            printed = [Initial 1 1 2, Iteration 1 (1/2) (1/2) (1/2),
                       Iteration 2 (1/4) (1/4) (1/8)]\<rparr> \<and>
   (1::int) \<le> 2 \<and>
   gradient_descent_pytorch id euclid_norm bowl_backward bowl (1, 1) (1/4) 2 0
     = Inr [(1, 1, 2), (1/2, 1/2, 1/2), (1/4, 1/4, 1/8)] \<and>
   updates_performed
     \<lparr>xt = (1/4::real, 1/4::real),
      path = [(1, 1, 2), (1/2, 1/2, 1/2), (1/4, 1/4, 1/8)],
      printed = [Initial 1 1 2, Iteration 1 (1/2) (1/2) (1/2),
                 Iteration 2 (1/4) (1/4) (1/8)]\<rparr> = 2"
  using trajectory_length[OF bowl_state2] bowl_state2 by simp

text \<open>
  C4. The first row of a returned trajectory holds the configured initial point and
  the value of the objective there. (The conversion of the start point to a float32
  tensor is taken as exact.)
\<close>

theorem first_sample:
  assumes "gradient_descent_pytorch tt tn b f sp lr m tol = Inr p"
  shows "p \<noteq> [] \<and> sample_point (p ! 0) = tt sp \<and>
         f (fst (tt sp)) (snd (tt sp)) = Inr (sample_value (p ! 0)) \<and>
         (tt sp = sp \<longrightarrow> sample_point (p ! 0) = sp)"
proof -
  from assms obtain st where run: "gd_run tt tn b f sp lr m tol = Inr st" and p: "path st = p"
    by (auto simp: pytorch_Inr)
  from gd_run_first[OF run] p show ?thesis
    by (auto simp: sample_point_def sample_value_def)
qed

theorem first_sample_witness:
  "gradient_descent_pytorch id euclid_norm bowl_backward bowl (3/2, 2) (1/4) 3 5
     = Inr [(3/2, 2, 25/4), (3/4, 1, 25/16), (3/8, 1/2, 25/64)] \<and>
   sample_point ([(3/2::real, 2::real, 25/4::real), (3/4, 1, 25/16), (3/8, 1/2, 25/64)] ! 0)
     = (3/2, 2) \<and>
   bowl (fst (3/2, 2)) (snd (3/2, 2))
     = Inr (sample_value ([(3/2, 2, 25/4), (3/4, 1, 25/16), (3/8, 1/2, 25/64)] ! 0))"
  using first_sample[OF bowl_run_tol] bowl_run_tol by simp

text \<open>
  C5, as amended. A run with \<open>max_iters = 1\<close> returns a trajectory of exactly 2 rows,
  whatever the tolerance and the gradient norm: the update and its row come before the
  tolerance check. The flat objective, whose gradient is zero, gives 2 rows as well.
\<close>

theorem single_iteration_length:
  assumes "gradient_descent_pytorch tt tn b f sp lr 1 tol = Inr p"
  shows "length p = 2"
proof -
  from assms obtain st where run: "gd_run tt tn b f sp lr 1 tol = Inr st" and p: "path st = p"
    by (auto simp: pytorch_Inr)
  from gd_run_length[OF run] p show ?thesis by simp
qed

theorem single_iteration_length_witness:
  "gradient_descent_pytorch id euclid_norm flat_backward flat (0, 0) (1/10) 1 1
     = Inr [(0, 0, 0), (0, 0, 0)] \<and>
   length [(0::real, 0::real, 0::real), (0, 0, 0)] = 2"
  using single_iteration_length[OF flat_run1] flat_run1 by simp

text \<open>
  The claim as stated fails: on the flat objective the gradient norm 0 is below the
  tolerance 1 at the initial point, and the run with \<open>max_iters = 1\<close> still returns 2
  rows, not 1.
\<close>

theorem flat_single_iteration_counterexample:
  "euclid_norm (0, 0) < 1 \<and>
   map_sum id length
     (gradient_descent_pytorch id euclid_norm flat_backward flat (0, 0) (1/10) 1 1) = Inr 2"
  by (simp add: run_eval euclid_norm_less)

text \<open>
  C6, as amended. The function validates nothing, so no run is rejected with
  InvalidConfig: such an error could only be one the objective or the gradient
  computation raised. With \<open>max_iters < 1\<close> the loop body never runs and the run returns
  the single initial row; with \<open>max_iters \<ge> 1\<close> a \<open>learning_rate \<le> 0\<close> or a
  \<open>tolerance < 0\<close> is used as it is, and an update step is performed.
\<close>

theorem no_config_validation:
  assumes "\<forall>a c. f a c \<noteq> Inl InvalidConfig" and "\<forall>q. b q \<noteq> Inl InvalidConfig"
  shows "gradient_descent_pytorch tt tn b f sp lr m tol \<noteq> Inl InvalidConfig \<and>
         (m < 1 \<and> f (fst (tt sp)) (snd (tt sp)) = Inr y \<longrightarrow>
            gradient_descent_pytorch tt tn b f sp lr m tol = Inr [(fst (tt sp), snd (tt sp), y)]) \<and>
         (1 \<le> m \<and> gradient_descent_pytorch tt tn b f sp lr m tol = Inr p \<longrightarrow> 2 \<le> length p)"
proof -
  have "gd_run tt tn b f sp lr m tol \<noteq> Inl InvalidConfig"
    using gd_run_Inl[of tt tn b f sp lr m tol InvalidConfig] assms by blast
  then have "gradient_descent_pytorch tt tn b f sp lr m tol \<noteq> Inl InvalidConfig"
    by (simp add: pytorch_Inl)
  moreover have "gradient_descent_pytorch tt tn b f sp lr m tol = Inr [(fst (tt sp), snd (tt sp), y)]"
    if "m < 1 \<and> f (fst (tt sp)) (snd (tt sp)) = Inr y"
    using that by (simp add: gradient_descent_pytorch_def gd_run_no_iterations)
  moreover have "2 \<le> length p"
    if "1 \<le> m \<and> gradient_descent_pytorch tt tn b f sp lr m tol = Inr p"
  proof -
    from that obtain st where run: "gd_run tt tn b f sp lr m tol = Inr st" and p: "path st = p"
      by (auto simp: pytorch_Inr)
    from gd_run_length[OF run] p that show ?thesis by simp
  qed
  ultimately show ?thesis by blast
qed

theorem no_config_validation_witness:
  "(\<forall>a c. bowl a c \<noteq> Inl InvalidConfig) \<and> (\<forall>q. bowl_backward q \<noteq> Inl InvalidConfig) \<and>
   (0::int) < 1 \<and> bowl (fst (1, 1)) (snd (1, 1)) = Inr 2 \<and>
   gradient_descent_pytorch id euclid_norm bowl_backward bowl (1, 1) (-1) 0 (-1) \<noteq> Inl InvalidConfig \<and>
   gradient_descent_pytorch id euclid_norm bowl_backward bowl (1, 1) (-1) 0 (-1) = Inr [(1, 1, 2)] \<and>
   (1::int) \<le> 1 \<and>
   gradient_descent_pytorch id euclid_norm bowl_backward bowl (1, 1) (-1) 1 (-1)
     = Inr [(1, 1, 2), (3, 3, 18)] \<and>
   2 \<le> length [(1::real, 1::real, 2::real), (3, 3, 18)]"
proof -
  have h1: "\<forall>a c. bowl a c \<noteq> Inl InvalidConfig" by (simp add: bowl_def)
  have h2: "\<forall>q. bowl_backward q \<noteq> Inl InvalidConfig" by (simp add: bowl_backward_def)
  have h3: "bowl (fst (1, 1)) (snd (1, 1)) = Inr 2" by (simp add: bowl_def)
  from no_config_validation[OF h1 h2, where tt = id and tn = euclid_norm and sp = "(1, 1)"
      and lr = "-1" and m = 0 and tol = "-1" and y = 2]
    no_config_validation[OF h1 h2, where tt = id and tn = euclid_norm and sp = "(1, 1)"
      and lr = "-1" and m = 1 and tol = "-1" and p = "[(1, 1, 2), (3, 3, 18)]"]
    h1 h2 h3 bowl_run_uphill
  show ?thesis by simp
qed

text \<open>
  The claim as stated fails: with \<open>learning_rate = -1\<close> the run is not rejected, and it
  performs an update step (uphill, from (1, 1) to (3, 3)).
\<close>

theorem negative_learning_rate_counterexample:
  "(-1::real) \<le> 0 \<and>
   gradient_descent_pytorch id euclid_norm bowl_backward bowl (1, 1) (-1) 1 0
     = Inr [(1, 1, 2), (3, 3, 18)]"
  by (simp add: run_eval euclid_norm_less)

text \<open>
  C7, as amended. The function raises no NumericalError of its own. A run aborts
  only with an error that a call of the objective or of the gradient computation
  raised; when the objective raises at the initial point, the run aborts at the first
  evaluation (line 72), before any row is recorded. An objective that divides by
  \<open>x1\<close> with tensor operations does not raise at \<open>x1 = 0\<close>: the run from (0, 0) goes
  on with infinite values and returns a trajectory.
\<close>

theorem errors_come_from_callables:
  "(f (fst (tt sp)) (snd (tt sp)) = Inl e \<longrightarrow> gradient_descent_pytorch tt tn b f sp lr m tol = Inl e) \<and>
   (gradient_descent_pytorch tt tn b f sp lr m tol = Inl e \<longrightarrow>
      (\<exists>a c. f a c = Inl e) \<or> (\<exists>q. b q = Inl e)) \<and>
   (\<exists>p. gradient_descent_pytorch id tf_norm recip_backward recip (Fin 0, Fin 0) lr0 m0 tol0 = Inr p)"
proof -
  have "gradient_descent_pytorch tt tn b f sp lr m tol = Inl e" if "f (fst (tt sp)) (snd (tt sp)) = Inl e"
    using that by (simp add: gradient_descent_pytorch_def gd_run_def gd_init_def Let_def)
  moreover have "(\<exists>a c. f a c = Inl e) \<or> (\<exists>q. b q = Inl e)"
    if "gradient_descent_pytorch tt tn b f sp lr m tol = Inl e"
    using that gd_run_Inl[of tt tn b f sp lr m tol e] by (simp add: pytorch_Inl)
  ultimately show ?thesis using recip_returns by blast
qed

theorem errors_come_from_callables_witness:
  "checked_recip (fst (0, 0)) (snd (0, 0)) = Inl NumericalError \<and>
   gradient_descent_pytorch id euclid_norm checked_recip_backward checked_recip
     (0, 0) (1/100) 1 (1/1000000) = Inl NumericalError \<and>
   ((\<exists>a c. checked_recip a c = Inl NumericalError) \<or>
    (\<exists>q. checked_recip_backward q = Inl NumericalError)) \<and>
   (\<exists>p. gradient_descent_pytorch id tf_norm recip_backward recip
          (Fin 0, Fin 0) (Fin (1/100)) 1000 (Fin (1/1000000)) = Inr p)"
proof -
  have h: "checked_recip (fst (0, 0)) (snd (0, 0)) = Inl NumericalError"
    by (simp add: checked_recip_def)
  from errors_come_from_callables[where f = checked_recip and tt = id and sp = "(0, 0)"
      and e = NumericalError and tn = euclid_norm and b = checked_recip_backward
      and lr = "1/100" and m = 1 and tol = "1/1000000"
      and ?lr0.0 = "Fin (1/100)" and ?m0.0 = 1000 and ?tol0.0 = "Fin (1/1000000)"] h
  show ?thesis by simp
qed

text \<open>
  The claim as stated fails: for \<^verbatim>\<open>1 / x1\<close> from (0, 0) the first value is \<^verbatim>\<open>inf\<close>, the
  first gradient is \<^verbatim>\<open>(-inf, 0)\<close>, and the run with \<open>max_iters = 1\<close> completes its
  iteration and returns two rows.
\<close>

theorem reciprocal_objective_counterexample:
  "recip (Fin 0) (Fin 0) = Inr PInf \<and>
   recip_backward (Fin 0, Fin 0) = Inr (NInf, Fin 0) \<and>
   gradient_descent_pytorch id tf_norm recip_backward recip
     (Fin 0, Fin 0) (Fin (1/100)) 1 (Fin (1/1000000))
     = Inr [(Fin 0, Fin 0, PInf), (PInf, Fin 0, Fin 0)]"
  by (simp add: run_eval)

text \<open>
  C8. When the objective and the gradient computation return at every point and
  \<open>max_iters \<ge> 1\<close>, the run returns after at most \<open>max_iters\<close> iterations, and it
  ends either at iteration \<open>max_iters\<close> or at an iteration whose gradient norm is below
  the tolerance.
\<close>

theorem loop_terminates:
  assumes "\<forall>a c. \<exists>y. f a c = Inr y" and "\<forall>q. \<exists>g. b q = Inr g" and "1 \<le> m"
  shows "\<exists>st. gd_run tt tn b f sp lr m tol = Inr st \<and>
           1 \<le> updates_performed st \<and> int (updates_performed st) \<le> m \<and>
           (int (updates_performed st) = m \<or>
            (\<exists>g. b (sample_point (path st ! (updates_performed st - 1))) = Inr g \<and> tn g < tol))"
proof -
  from gd_run_total[OF assms(1,2)] obtain st where run: "gd_run tt tn b f sp lr m tol = Inr st"
    by blast
  let ?n = "updates_performed st"
  from gd_run_length[OF run] assms(3)
  have len: "length (path st) = 1 + ?n" and n1: "1 \<le> ?n" and nm: "int ?n \<le> m"
    by auto
  have "?n < length (path st)" using len by simp
  from gd_run_steps[OF run n1 this] obtain g where
    "descent_step f b lr (path st ! (?n - 1)) (path st ! ?n) g"
    and "(?n = length (path st) - 1) \<longleftrightarrow> (tn g < tol \<or> int ?n = m)"
    by blast
  with len have "b (sample_point (path st ! (?n - 1))) = Inr g" and "tn g < tol \<or> int ?n = m"
    by (auto simp: descent_step_def)
  with run n1 nm show ?thesis by blast
qed

theorem loop_terminates_witness:
  "(\<forall>a c. \<exists>y. bowl a c = Inr y) \<and> (\<forall>q. \<exists>g. bowl_backward q = Inr g) \<and> (1::int) \<le> 3 \<and>
   (\<exists>st. gd_run id euclid_norm bowl_backward bowl (3/2, 2) (1/4) 3 5 = Inr st \<and>
           1 \<le> updates_performed st \<and> int (updates_performed st) \<le> 3 \<and>
           (int (updates_performed st) = 3 \<or>
            (\<exists>g. bowl_backward (sample_point (path st ! (updates_performed st - 1))) = Inr g \<and>
                 euclid_norm g < 5)))"
proof -
  have h1: "\<forall>a c. \<exists>y. bowl a c = Inr y" by (simp add: bowl_def)
  have h2: "\<forall>q. \<exists>g. bowl_backward q = Inr g" by (simp add: bowl_backward_def)
  have h3: "(1::int) \<le> 3" by simp
  from loop_terminates[OF h1 h2 h3, where tt = id and tn = euclid_norm and sp = "(3/2, 2)"
      and lr = "1/4" and tol = 5] h1 h2 h3
  show ?thesis by blast
qed

text \<open>
  C9. On the bowl \<open>x1^2 + x2^2\<close> with a learning rate in \<open>(0, 1]\<close>, over the reals, the
  values recorded along the trajectory never increase.
\<close>

theorem bowl_values_nonincreasing:
  assumes "0 < lr" and "lr \<le> 1"
  shows "\<exists>p. gradient_descent_pytorch id euclid_norm bowl_backward bowl sp lr m tol = Inr p \<and>
             sorted_wrt (\<lambda>u v. v \<le> u) (map sample_value p)"
proof -
  have t1: "\<forall>a c. \<exists>y. bowl a c = Inr y" by (simp add: bowl_def)
  have t2: "\<forall>q. \<exists>g. bowl_backward q = Inr g" by (simp add: bowl_backward_def)
  from gd_run_total[OF t1 t2] obtain st
    where run: "gd_run id euclid_norm bowl_backward bowl sp lr m tol = Inr st" by blast
  let ?p = "path st"
  have ret: "gradient_descent_pytorch id euclid_norm bowl_backward bowl sp lr m tol = Inr ?p"
    using run by (simp add: gradient_descent_pytorch_def)
  have val: "sample_value (?p ! j) = (fst (sample_point (?p ! j)))\<^sup>2 + (snd (sample_point (?p ! j)))\<^sup>2"
    if "j < length ?p" for j
  proof (cases "j = 0")
    case True
    with gd_run_first[OF run] show ?thesis
      by (auto simp: bowl_def sample_point_def sample_value_def)
  next
    case False
    then have "1 \<le> j" by simp
    from gd_run_steps[OF run this that] show ?thesis
      by (auto simp: descent_step_def bowl_def)
  qed
  have step: "sample_value (?p ! Suc j) \<le> sample_value (?p ! j)" if "Suc j < length ?p" for j
  proof -
    have "1 \<le> Suc j" by simp
    from gd_run_steps[OF run this that] obtain g where
      "descent_step bowl bowl_backward lr (?p ! j) (?p ! Suc j) g" by auto
    then have pt: "sample_point (?p ! Suc j) =
        (fst (sample_point (?p ! j)) - lr * (2 * fst (sample_point (?p ! j))),
         snd (sample_point (?p ! j)) - lr * (2 * snd (sample_point (?p ! j))))"
      by (auto simp: descent_step_def bowl_backward_def)
    from that have j: "j < length ?p" by simp
    show ?thesis
      unfolding val[OF that] val[OF j] pt fst_conv snd_conv
      using assms by (intro bowl_step_value) simp_all
  qed
  have "transp (\<lambda>u v::real. v \<le> u)" by (auto intro: transpI)
  then have "sorted_wrt (\<lambda>u v. v \<le> u) (map sample_value ?p)"
    using step by (simp add: sorted_wrt_iff_nth_Suc_transp)
  with ret show ?thesis by blast
qed

theorem bowl_values_nonincreasing_witness:
  "(0::real) < 1/4 \<and> (1/4::real) \<le> 1 \<and>
   (\<exists>p. gradient_descent_pytorch id euclid_norm bowl_backward bowl (1, 1) (1/4) 2 0 = Inr p \<and>
        p = [(1, 1, 2), (1/2, 1/2, 1/2), (1/4, 1/4, 1/8)] \<and>
        sorted_wrt (\<lambda>u v. v \<le> u) (map sample_value p))"
proof -
  have h1: "(0::real) < 1/4" by simp
  have h2: "(1/4::real) \<le> 1" by simp
  from bowl_values_nonincreasing[OF h1 h2, where sp = "(1, 1)" and m = 2 and tol = 0] h1 h2
  show ?thesis by (auto simp: bowl_run2)
qed

text \<open>
  C10. With \<open>max_iters \<ge> 1\<close> a returned trajectory has at least 2 rows, and row 1
  is the update of the initial point: the gradient is taken at the initial point, row 1
  holds that point minus \<open>learning_rate\<close> times the gradient and the value of the
  objective there. The row is appended before the tolerance is looked at: when the
  gradient norm at the initial point is already below the tolerance, the trajectory
  has exactly these 2 rows.
\<close>

theorem at_least_one_update:
  assumes "gradient_descent_pytorch tt tn b f sp lr m tol = Inr p" and "1 \<le> m"
  shows "2 \<le> length p \<and>
         (\<exists>g. b (tt sp) = Inr g \<and>
              sample_point (p ! 1) = (fst (tt sp) - lr * fst g, snd (tt sp) - lr * snd g) \<and>
              f (fst (sample_point (p ! 1))) (snd (sample_point (p ! 1)))
                = Inr (sample_value (p ! 1)) \<and>
              ((length p = 2) \<longleftrightarrow> (tn g < tol \<or> m = 1)))"
proof -
  from assms obtain st where run: "gd_run tt tn b f sp lr m tol = Inr st" and p: "path st = p"
    by (auto simp: pytorch_Inr)
  from gd_run_length[OF run] p assms(2) have len: "2 \<le> length p" by simp
  from gd_run_first[OF run] p have p0: "sample_point (p ! 0) = tt sp"
    by (auto simp: sample_point_def)
  have "(1::nat) \<le> 1" by simp
  moreover have "1 < length (path st)" using len p by simp
  ultimately obtain g where step: "descent_step f b lr (path st ! (1 - 1)) (path st ! 1) g"
    and last: "(1 = length (path st) - 1) \<longleftrightarrow> (tn g < tol \<or> int 1 = m)"
    using gd_run_steps[OF run] by blast
  from step p have step0: "descent_step f b lr (p ! 0) (p ! 1) g" by simp
  from step0[unfolded descent_step_def] have "b (sample_point (p ! 0)) = Inr g"
    and "sample_point (p ! 1) =
      (fst (sample_point (p ! 0)) - lr * fst g, snd (sample_point (p ! 0)) - lr * snd g)"
    and "f (fst (sample_point (p ! 1))) (snd (sample_point (p ! 1))) = Inr (sample_value (p ! 1))"
    by blast+
  then have "b (tt sp) = Inr g"
    and "sample_point (p ! 1) = (fst (tt sp) - lr * fst g, snd (tt sp) - lr * snd g)"
    and "f (fst (sample_point (p ! 1))) (snd (sample_point (p ! 1))) = Inr (sample_value (p ! 1))"
    by (simp_all only: p0)
  moreover from last p len have "(length p = 2) \<longleftrightarrow> (tn g < tol \<or> m = 1)"
    by auto
  ultimately show ?thesis using len by blast
qed

theorem at_least_one_update_witness:
  "gradient_descent_pytorch id euclid_norm bowl_backward bowl (1, 1) (1/4) 5 10
     = Inr [(1, 1, 2), (1/2, 1/2, 1/2)] \<and> (1::int) \<le> 5 \<and>
   bowl_backward (id (1, 1)) = Inr (2, 2) \<and> euclid_norm (2, 2) < 10 \<and>
   2 \<le> length [(1::real, 1::real, 2::real), (1/2, 1/2, 1/2)] \<and>
   sample_point ([(1, 1, 2), (1/2, 1/2, 1/2)] ! 1) = (1 - (1/4) * 2 :: real, 1 - (1/4) * 2 :: real) \<and>
   bowl (1/2) (1/2) = Inr (sample_value ([(1, 1, 2), (1/2, 1/2, 1/2)] ! 1)) \<and>
   length [(1::real, 1::real, 2::real), (1/2, 1/2, 1/2)] = 2"
proof -
  have h: "(1::int) \<le> 5" by simp
  from at_least_one_update[OF bowl_run_early h] bowl_run_early
  show ?thesis
    by (simp add: bowl_backward_def bowl_def sample_point_def sample_value_def
        euclid_norm_less power2_eq_square)
qed

end
